theory Spec2Isabelle
  imports Main "HOL-Library.Multiset"
begin

section \<open>Data model of app.py\<close>

text \<open>
  The page script of src/app.py keeps two tables: the product master (item code, item name,
  safety stock) and the inventory history (item code, date, description, inbound quantity,
  outbound quantity). The column names of the source are Korean; the fields below carry
  their English meaning. A date is an integer time stamp, of which the script only uses the
  order. The quantity columns are 64-bit integer columns of a pandas frame: the model keeps
  the value of a quantity as an integer and writes the wrap-around of every operation on
  such columns out. The safety stock of the session's dictionary is a Python integer.
\<close>

text \<open>The value that 64-bit two's-complement arithmetic keeps of an integer result, and the
  range of the values that it keeps as they are.\<close>

definition wrap64 :: "int \<Rightarrow> int" where
  "wrap64 x = (x + 2 ^ 63) mod 2 ^ 64 - 2 ^ 63"

definition in_int64 :: "int \<Rightarrow> bool" where
  "in_int64 x \<longleftrightarrow> - (2 ^ 63) \<le> x \<and> x < 2 ^ 63"

datatype error =
    KeyError string
  | ValueError
  | DatabaseError
  | ValueBelowMin
  | ValueAboveMax

record item_info =
  item_name :: string
  safety_stock :: int

text \<open>The rows of the product master as the query returns them, and the dictionary keyed
  by item code that line 54 builds from them.\<close>

type_synonym master_table = "(string \<times> item_info) list"
type_synonym master_dict = "(string \<times> item_info) list"

record transaction =
  item_code :: string
  date :: int
  description :: string
  inbound_qty :: int
  outbound_qty :: int

text \<open>
  A data frame of transactions. The running-balance column of line 142 does not exist until
  it is assigned; \<open>df_balance\<close> is \<open>None\<close> until then. Frames are objects:
  the heap maps an address (an index) to the frame stored there, and every pandas operation
  that returns a new frame allocates.
\<close>

record dataframe =
  df_rows :: "transaction list"
  df_balance :: "int list option"

type_synonym addr = nat
type_synonym heap = "dataframe list"

definition alloc :: "heap \<Rightarrow> dataframe \<Rightarrow> addr \<times> heap" where
  "alloc h df = (length h, h @ [df])"

text \<open>Line 116: boolean indexing by item code; the result is a new frame.\<close>

definition bool_index :: "string \<Rightarrow> dataframe \<Rightarrow> dataframe" where
  "bool_index code df =
     \<lparr>df_rows = filter (\<lambda>t. item_code t = code) (df_rows df),
      df_balance =
        map_option
          (\<lambda>bs. map snd (filter (\<lambda>p. item_code (fst p) = code) (zip (df_rows df) bs)))
          (df_balance df)\<rparr>"

text \<open>
  Line 117: \<open>sort_values\<close> by date, ascending. pandas' default sort does not fix the
  order of rows with equal dates; the model takes the insertion order of \<open>sort_key\<close>.
  No theorem below depends on how ties are ordered.
\<close>

definition sort_values :: "dataframe \<Rightarrow> dataframe" where
  "sort_values df =
     \<lparr>df_rows = sort_key date (df_rows df),
      df_balance =
        map_option
          (\<lambda>bs. map snd (sort_key (\<lambda>p. date (fst p)) (zip (df_rows df) bs)))
          (df_balance df)\<rparr>"

section \<open>Stock computation (lines 119 to 148)\<close>

text \<open>Lines 120 to 122: the Python integer zero for an empty frame, otherwise the difference
  of the two column sums. Each sum is a 64-bit integer, and so is their difference.\<close>

definition current_stock :: "transaction list \<Rightarrow> int" where
  "current_stock item_transactions =
     (if item_transactions = [] then 0
      else wrap64 (wrap64 (sum_list (map inbound_qty item_transactions))
                 - wrap64 (sum_list (map outbound_qty item_transactions))))"

text \<open>
  Line 125. When the frame has rows the current stock is a 64-bit integer (\<open>numpy\<close> is
  true) and the subtraction of the safety stock wraps; when the frame is empty the current
  stock is the Python integer zero and the subtraction is exact. The safety stock of an
  entry of the master lies in the 64-bit range: it comes from a 64-bit column (line 54) or
  from the number input (line 75).
\<close>

definition available_stock :: "bool \<Rightarrow> int \<Rightarrow> int \<Rightarrow> int" where
  "available_stock numpy current safety =
     (if numpy then wrap64 (current - safety) else current - safety)"

text \<open>Line 135: the condition under which the shortage banner is shown.\<close>

definition shortage_warning :: "int \<Rightarrow> bool" where
  "shortage_warning available \<longleftrightarrow> available \<le> 0"

text \<open>The cumulative sum of a 64-bit column: the accumulator is the sum of the entries
  seen so far, as 64-bit addition keeps it.\<close>

fun cumsum :: "int \<Rightarrow> int list \<Rightarrow> int list" where
  "cumsum acc [] = []"
| "cumsum acc (x # xs) = wrap64 (acc + x) # cumsum (wrap64 (acc + x)) xs"

text \<open>Line 142: the running balance is the cumulative sum of the column of inbound minus
  outbound, itself a 64-bit column.\<close>

definition running_balance :: "transaction list \<Rightarrow> int list" where
  "running_balance item_transactions =
     cumsum 0 (map (\<lambda>t. wrap64 (inbound_qty t - outbound_qty t)) item_transactions)"

text \<open>
  Line 144: the displayed table takes the date, description, inbound, outbound and
  running-balance columns and renumbers the rows. Selecting a column that does not exist
  raises KeyError. Line 145 rewrites the date column of this new table as text; the model
  keeps the date itself.
\<close>

type_synonym display_row = "int \<times> string \<times> int \<times> int \<times> int"

definition display_df :: "dataframe \<Rightarrow> error + display_row list" where
  "display_df df =
     (case df_balance df of
        None \<Rightarrow> Inl (KeyError ''balance'')
      | Some bs \<Rightarrow>
          Inr (map (\<lambda>p. (date (fst p), description (fst p), inbound_qty (fst p),
                          outbound_qty (fst p), snd p))
                   (zip (df_rows df) bs)))"

record metrics =
  current_metric :: int
  safety_metric :: int
  available_metric :: int
  shortage_banner :: bool

datatype detail =
    DetailTable "display_row list"
  | NoHistoryWarning

datatype screen =
    SelectPrompt
  | ItemScreen string metrics detail

record session_state =
  master_data :: master_dict
  inventory_data :: addr

text \<open>The first option of the main select box (line 104), as its UTF-8 bytes.\<close>

definition placeholder :: string where
  "placeholder =
     [CHR 0xEC, CHR 0x84, CHR 0xA0, CHR 0xED, CHR 0x83, CHR 0x9D, CHR 0xED, CHR 0x95,
      CHR 0x98, CHR 0xEC, CHR 0x84, CHR 0xB8, CHR 0xEC, CHR 0x9A, CHR 0x94]"

text \<open>
  Lines 102 to 151. The input is the value of the select box. The function returns what is
  rendered, or the exception that leaves the block, and the heap after the frames the block
  creates. The session state is only read.
\<close>

definition main_view :: "session_state \<Rightarrow> heap \<Rightarrow> string \<Rightarrow> (error + screen) \<times> heap" where
  "main_view s h item_code_input =
     (if item_code_input = [] \<or> item_code_input = placeholder then (Inr SelectPrompt, h)
      else
        case map_of (master_data s) item_code_input of
          None \<Rightarrow> (Inl (KeyError item_code_input), h)
        | Some info \<Rightarrow>
            let (a1, h1) = alloc h (bool_index item_code_input (h ! inventory_data s));
                (a2, h2) = alloc h1 (h1 ! a1);
                (a3, h3) = alloc h2 (sort_values (h2 ! a2));
                current = current_stock (df_rows (h3 ! a3));
                available =
                  available_stock (df_rows (h3 ! a3) \<noteq> []) current (safety_stock info);
                m = \<lparr>current_metric = current, safety_metric = safety_stock info,
                     available_metric = available,
                     shortage_banner = shortage_warning available\<rparr>
            in
              if df_rows (h3 ! a3) \<noteq> [] then
                let h4 = h3[a3 := (h3 ! a3)
                            \<lparr>df_balance := Some (running_balance (df_rows (h3 ! a3)))\<rparr>]
                in
                  case display_df (h4 ! a3) of
                    Inl e \<Rightarrow> (Inl e, h4)
                  | Inr table \<Rightarrow> (Inr (ItemScreen (item_name info) m (DetailTable table)), h4)
              else (Inr (ItemScreen (item_name info) m NoHistoryWarning), h3))"

text \<open>The transactions of an item as lines 116 and 117 compute them from the stored table.\<close>

definition item_transactions :: "transaction list \<Rightarrow> string \<Rightarrow> transaction list" where
  "item_transactions inventory code =
     sort_key date (filter (\<lambda>t. item_code t = code) inventory)"

section \<open>The backing store and the memoized load (lines 18 to 46)\<close>

record database =
  product_master :: master_table
  inventory_history :: "transaction list"

text \<open>
  Lines 21 to 30: one UPDATE statement on the product master, restricted to the rows whose
  item code is the given one, then a commit. An UPDATE that matches no row is not an error.
  \<open>fault\<close> says that the store raises on this access; the session then ends without a
  commit and the table is as before.
\<close>

definition update_safety_stock_in_db ::
    "bool \<Rightarrow> database \<Rightarrow> string \<Rightarrow> int \<Rightarrow> error + database" where
  "update_safety_stock_in_db fault d code stock =
     (if fault then Inl DatabaseError
      else
        Inr (d\<lparr>product_master :=
                 map (\<lambda>r. if fst r = code then (fst r, (snd r)\<lparr>safety_stock := stock\<rparr>) else r)
                     (product_master d)\<rparr>))"

text \<open>
  The memoized results: of \<open>load_data_from_db\<close> (line 33) and of the two queries
  (lines 37 and 41). An entry that has expired is an entry that is \<open>None\<close>; the model
  does not schedule expiry. Line 93 clears all of them.
\<close>

record cache_data =
  load_memo :: "(master_table \<times> transaction list) option"
  master_query_memo :: "master_table option"
  inventory_query_memo :: "transaction list option"

definition cache_clear :: cache_data where
  "cache_clear = \<lparr>load_memo = None, master_query_memo = None, inventory_query_memo = None\<rparr>"

definition query_master ::
    "bool \<Rightarrow> cache_data \<Rightarrow> database \<Rightarrow> (error + master_table) \<times> cache_data" where
  "query_master fault c d =
     (case master_query_memo c of
        Some rows \<Rightarrow> (Inr rows, c)
      | None \<Rightarrow>
          if fault then (Inl DatabaseError, c)
          else (Inr (product_master d), c\<lparr>master_query_memo := Some (product_master d)\<rparr>))"

definition query_inventory ::
    "bool \<Rightarrow> cache_data \<Rightarrow> database \<Rightarrow> (error + transaction list) \<times> cache_data" where
  "query_inventory fault c d =
     (case inventory_query_memo c of
        Some rows \<Rightarrow> (Inr rows, c)
      | None \<Rightarrow>
          if fault then (Inl DatabaseError, c)
          else (Inr (inventory_history d),
                c\<lparr>inventory_query_memo := Some (inventory_history d)\<rparr>))"

text \<open>Lines 33 to 46. The conversion of the date column (line 44) is the identity on the
  model's dates.\<close>

definition load_data_from_db ::
    "bool \<Rightarrow> cache_data \<Rightarrow> database
      \<Rightarrow> (error + master_table \<times> transaction list) \<times> cache_data" where
  "load_data_from_db fault c d =
     (case load_memo c of
        Some r \<Rightarrow> (Inr r, c)
      | None \<Rightarrow>
          (case query_master fault c d of
             (Inl e, c1) \<Rightarrow> (Inl e, c1)
           | (Inr item_master_df, c1) \<Rightarrow>
               (case query_inventory fault c1 d of
                  (Inl e, c2) \<Rightarrow> (Inl e, c2)
                | (Inr inventory_df, c2) \<Rightarrow>
                    (Inr (item_master_df, inventory_df),
                     c2\<lparr>load_memo := Some (item_master_df, inventory_df)\<rparr>))))"

text \<open>Line 54: the dictionary keyed by item code. pandas refuses an index that is not
  unique.\<close>

definition to_dict :: "master_table \<Rightarrow> error + master_dict" where
  "to_dict rows = (if distinct (map fst rows) then Inr rows else Inl ValueError)"

text \<open>Lines 51 to 58: the tables are loaded only when the session does not hold them yet.\<close>

definition startup ::
    "bool \<Rightarrow> session_state option \<Rightarrow> cache_data \<Rightarrow> database \<Rightarrow> heap
      \<Rightarrow> (error + session_state) \<times> cache_data \<times> heap" where
  "startup fault sess c d h =
     (case sess of
        Some s \<Rightarrow> (Inr s, c, h)
      | None \<Rightarrow>
          (case load_data_from_db fault c d of
             (Inl e, c1) \<Rightarrow> (Inl e, c1, h)
           | (Inr (master_df, inventory_df), c1) \<Rightarrow>
               (case to_dict master_df of
                  Inl e \<Rightarrow> (Inl e, c1, h)
                | Inr md \<Rightarrow>
                    let (a, h1) = alloc h \<lparr>df_rows = inventory_df, df_balance = None\<rparr>
                    in (Inr \<lparr>master_data = md, inventory_data = a\<rparr>, c1, h1))))"

section \<open>The side bar: setting the safety stock (lines 64 to 96)\<close>

datatype notice =
    Saved string int
  | SaveFailed error

text \<open>Line 90: the assignment to the safety-stock field of the entry of one item code.\<close>

definition set_entry :: "string \<Rightarrow> int \<Rightarrow> master_dict \<Rightarrow> master_dict" where
  "set_entry code stock md =
     map (\<lambda>r. if fst r = code then (fst r, (snd r)\<lparr>safety_stock := stock\<rparr>) else r) md"

text \<open>
  Lines 85 to 96, the body of the save button: the write to the store, then the update of
  the session's dictionary, then the clearing of the cache. Any exception is caught at
  line 95 and shown; what was done before it stays done.
\<close>

definition save_button ::
    "bool \<Rightarrow> session_state \<Rightarrow> cache_data \<Rightarrow> database \<Rightarrow> string \<Rightarrow> int
      \<Rightarrow> notice \<times> session_state \<times> cache_data \<times> database" where
  "save_button fault s c d selected_item new_safety_stock =
     (case update_safety_stock_in_db fault d selected_item new_safety_stock of
        Inl e \<Rightarrow> (SaveFailed e, s, c, d)
      | Inr d1 \<Rightarrow>
          (case map_of (master_data s) selected_item of
             None \<Rightarrow> (SaveFailed (KeyError selected_item), s, c, d1)
           | Some info \<Rightarrow>
               (Saved selected_item new_safety_stock,
                s\<lparr>master_data := set_entry selected_item new_safety_stock (master_data s)\<rparr>,
                cache_clear, d1)))"

text \<open>
  Lines 64 to 96. The inputs are the values of the widgets: the selected item code
  (\<open>None\<close> when there is nothing to select), the number entered, which the widget keeps
  between zero and \<open>2 ^ 53 - 1\<close>, and whether the button was pressed. Line 72 looks the
  selected code up (KeyError when absent); the number input refuses a default below its
  minimum or above the largest integer it can hold, \<open>2 ^ 53 - 1\<close>. These exceptions
  leave the side bar.
\<close>

definition sidebar ::
    "bool \<Rightarrow> session_state \<Rightarrow> cache_data \<Rightarrow> database \<Rightarrow> string option \<Rightarrow> nat \<Rightarrow> bool
      \<Rightarrow> (error + notice option) \<times> session_state \<times> cache_data \<times> database" where
  "sidebar fault s c d selected_item new_safety_stock clicked =
     (case selected_item of
        None \<Rightarrow> (Inr None, s, c, d)
      | Some code \<Rightarrow>
          if code = [] then (Inr None, s, c, d)
          else
            (case map_of (master_data s) code of
               None \<Rightarrow> (Inl (KeyError code), s, c, d)
             | Some info \<Rightarrow>
                 if safety_stock info < 0 then (Inl ValueBelowMin, s, c, d)
                 else if 9007199254740991 < safety_stock info
                 then (Inl ValueAboveMax, s, c, d)
                 else if clicked then
                   (case save_button fault s c d code (int new_safety_stock) of
                      (n, s1, c1, d1) \<Rightarrow> (Inr (Some n), s1, c1, d1))
                 else (Inr None, s, c, d)))"

section \<open>One run of the page (lines 49 to 155)\<close>

record inputs =
  selected_item :: "string option"
  new_safety_stock :: nat
  save_clicked :: bool
  item_code_input :: string
  load_fault :: bool
  write_fault :: bool

datatype rendered =
    Page "notice option" screen
  | PageError "notice option" error

text \<open>The whole script: start-up, side bar, main view. An exception that leaves any of
  them is caught at line 153 and shown; the state reached before it stays.\<close>

definition page ::
    "inputs \<Rightarrow> session_state option \<Rightarrow> cache_data \<Rightarrow> database \<Rightarrow> heap
      \<Rightarrow> rendered \<times> session_state option \<times> cache_data \<times> database \<times> heap" where
  "page inp sess c d h =
     (case startup (load_fault inp) sess c d h of
        (Inl e, c1, h1) \<Rightarrow> (PageError None e, sess, c1, d, h1)
      | (Inr s, c1, h1) \<Rightarrow>
          (case sidebar (write_fault inp) s c1 d (selected_item inp) (new_safety_stock inp)
                  (save_clicked inp) of
             (Inl e, s2, c2, d2) \<Rightarrow> (PageError None e, Some s2, c2, d2, h1)
           | (Inr n, s2, c2, d2) \<Rightarrow>
               (case main_view s2 h1 (item_code_input inp) of
                  (Inl e, h2) \<Rightarrow> (PageError n e, Some s2, c2, d2, h2)
                | (Inr scr, h2) \<Rightarrow> (Page n scr, Some s2, c2, d2, h2))))"

section \<open>The scenario of the specification, as data\<close>

text \<open>One item with a receipt of 100, a shipment of 30 and a receipt of 20, in date order.\<close>

definition scenario :: "transaction list" where
  "scenario =
     [\<lparr>item_code = ''A-100'', date = 20240101, description = ''receipt'',
        inbound_qty = 100, outbound_qty = 0\<rparr>,
      \<lparr>item_code = ''A-100'', date = 20240105, description = ''shipment'',
        inbound_qty = 0, outbound_qty = 30\<rparr>,
      \<lparr>item_code = ''A-100'', date = 20240110, description = ''receipt'',
        inbound_qty = 20, outbound_qty = 0\<rparr>]"

text \<open>The stored table holds these rows out of date order, among those of another item.\<close>

definition scenario_inventory :: "transaction list" where
  "scenario_inventory =
     \<lparr>item_code = ''C-300'', date = 20240103, description = ''receipt'',
       inbound_qty = 7, outbound_qty = 0\<rparr> # rev scenario"

definition scenario_master :: master_dict where
  "scenario_master =
     [(''A-100'', \<lparr>item_name = ''bolt'', safety_stock = 100\<rparr>),
      (''B-200'', \<lparr>item_name = ''nut'', safety_stock = 0\<rparr>)]"

definition scenario_session :: session_state where
  "scenario_session = \<lparr>master_data = scenario_master, inventory_data = 0\<rparr>"

definition scenario_heap :: heap where
  "scenario_heap = [\<lparr>df_rows = scenario_inventory, df_balance = None\<rparr>]"

definition scenario_db :: database where
  "scenario_db = \<lparr>product_master = scenario_master, inventory_history = scenario_inventory\<rparr>"

definition scenario_cache :: cache_data where
  "scenario_cache =
     \<lparr>load_memo = Some (scenario_master, scenario_inventory),
      master_query_memo = Some scenario_master,
      inventory_query_memo = Some scenario_inventory\<rparr>"

text \<open>A store whose product master has lost the row of the first item since the session
  loaded it.\<close>

definition stale_db :: database where
  "stale_db =
     \<lparr>product_master = [(''B-200'', \<lparr>item_name = ''nut'', safety_stock = 0\<rparr>)],
      inventory_history = scenario_inventory\<rparr>"

text \<open>Quantities near the ends of the 64-bit range: two receipts of \<open>2 ^ 62\<close> for one
  item, one shipment of \<open>2 ^ 63 - 1\<close> for another, whose safety stock is 2.\<close>

definition large_receipts :: "transaction list" where
  "large_receipts =
     [\<lparr>item_code = ''D-400'', date = 20240201, description = ''receipt'',
        inbound_qty = 4611686018427387904, outbound_qty = 0\<rparr>,
      \<lparr>item_code = ''D-400'', date = 20240202, description = ''receipt'',
        inbound_qty = 4611686018427387904, outbound_qty = 0\<rparr>]"

definition large_shipment :: "transaction list" where
  "large_shipment =
     [\<lparr>item_code = ''E-500'', date = 20240203, description = ''shipment'',
        inbound_qty = 0, outbound_qty = 9223372036854775807\<rparr>]"

definition large_session :: session_state where
  "large_session =
     \<lparr>master_data = [(''D-400'', \<lparr>item_name = ''gear'', safety_stock = 0\<rparr>),
                     (''E-500'', \<lparr>item_name = ''pin'', safety_stock = 2\<rparr>)],
      inventory_data = 0\<rparr>"

definition large_heap :: heap where
  "large_heap = [\<lparr>df_rows = large_receipts @ large_shipment, df_balance = None\<rparr>]"

definition scenario_inputs :: inputs where
  "scenario_inputs =
     \<lparr>selected_item = Some ''A-100'', new_safety_stock = 50, save_clicked = False,
      item_code_input = ''A-100'', load_fault = False, write_fault = False\<rparr>"

section \<open>Auxiliary facts\<close>

lemma wrap64_in_range: "in_int64 x \<Longrightarrow> wrap64 x = x"
  by (simp add: wrap64_def in_int64_def)

lemma in_int64_wrap64: "in_int64 (wrap64 x)"
  by (simp add: wrap64_def in_int64_def)

lemma wrap64_add_left: "wrap64 (wrap64 a + b) = wrap64 (a + b)"
  by (simp add: wrap64_def algebra_simps mod_simps)

lemma wrap64_add_right: "wrap64 (a + wrap64 b) = wrap64 (a + b)"
  by (simp add: wrap64_def algebra_simps mod_simps)

lemma wrap64_diff_left: "wrap64 (wrap64 a - b) = wrap64 (a - b)"
  using wrap64_add_left [of a "- b"] by simp

lemma wrap64_diff_right: "wrap64 (a - wrap64 b) = wrap64 (a - b)"
  by (simp add: wrap64_def algebra_simps mod_simps)

lemma wrap64_wrap64: "wrap64 (wrap64 a) = wrap64 a"
  using wrap64_add_left [of a 0] by simp

lemma wrap64_sum_list_map:
  "wrap64 (sum_list (map (\<lambda>x. wrap64 (f x)) xs)) = wrap64 (sum_list (map f xs))"
proof (induction xs)
  case Nil
  show ?case by simp
next
  case (Cons x xs)
  have "wrap64 (wrap64 (f x) + sum_list (map (\<lambda>x. wrap64 (f x)) xs))
      = wrap64 (f x + wrap64 (sum_list (map (\<lambda>x. wrap64 (f x)) xs)))"
    by (simp add: wrap64_add_left wrap64_add_right)
  also have "\<dots> = wrap64 (f x + sum_list (map f xs))"
    by (simp add: Cons.IH wrap64_add_right)
  finally show ?case by simp
qed

lemma sum_list_map_mset:
  fixes f :: "'a \<Rightarrow> int"
  assumes "mset xs = mset ys"
  shows "sum_list (map f xs) = sum_list (map f ys)"
proof -
  have "sum_list (map f xs) = sum_mset (image_mset f (mset xs))"
    by (simp add: sum_mset_sum_list [symmetric])
  also have "\<dots> = sum_mset (image_mset f (mset ys))"
    using assms by simp
  also have "\<dots> = sum_list (map f ys)"
    by (simp add: sum_mset_sum_list [symmetric])
  finally show ?thesis .
qed

lemma current_stock_wrap:
  "current_stock txs
     = wrap64 (sum_list (map inbound_qty txs) - sum_list (map outbound_qty txs))"
proof (cases "txs = []")
  case True
  then show ?thesis by (simp add: current_stock_def wrap64_def)
next
  case False
  then show ?thesis by (simp add: current_stock_def wrap64_diff_left wrap64_diff_right)
qed

lemma current_stock_net:
  "current_stock txs = wrap64 (\<Sum>t\<leftarrow>txs. inbound_qty t - outbound_qty t)"
  by (simp add: current_stock_wrap sum_list_subtractf)

lemma current_stock_mset:
  assumes "mset txs' = mset txs"
  shows "current_stock txs' = current_stock txs"
  using sum_list_map_mset [OF assms, of inbound_qty]
    sum_list_map_mset [OF assms, of outbound_qty]
  by (simp add: current_stock_wrap)

lemma cumsum_length: "length (cumsum acc xs) = length xs"
  by (induction xs arbitrary: acc) simp_all

lemma cumsum_eq_Nil: "cumsum acc xs = [] \<longleftrightarrow> xs = []"
  by (cases xs) simp_all

lemma cumsum_nth:
  "i < length xs \<Longrightarrow>
     cumsum acc xs ! i = wrap64 ((if i = 0 then acc else cumsum acc xs ! (i - 1)) + xs ! i)"
proof (induction xs arbitrary: acc i)
  case Nil
  then show ?case by simp
next
  case (Cons x xs)
  show ?case
  proof (cases i)
    case 0
    then show ?thesis by simp
  next
    case (Suc j)
    with Cons.prems have "j < length xs" by simp
    from Cons.IH [OF this, of "wrap64 (acc + x)"] Suc show ?thesis
      by (cases j) simp_all
  qed
qed

lemma cumsum_last: "xs \<noteq> [] \<Longrightarrow> last (cumsum acc xs) = wrap64 (acc + sum_list xs)"
proof (induction xs arbitrary: acc)
  case Nil
  then show ?case by simp
next
  case (Cons x xs)
  show ?case
  proof (cases "xs = []")
    case True
    then show ?thesis by simp
  next
    case False
    with Cons.IH [of "wrap64 (acc + x)"] show ?thesis
      by (simp add: cumsum_eq_Nil wrap64_add_left add.assoc)
  qed
qed

lemma running_balance_last:
  "txs \<noteq> [] \<Longrightarrow>
     last (running_balance txs) = wrap64 (\<Sum>t\<leftarrow>txs. inbound_qty t - outbound_qty t)"
  by (simp add: running_balance_def cumsum_last wrap64_sum_list_map)

lemma sort_key_Nil_iff: "sort_key f xs = [] \<longleftrightarrow> xs = []"
  by (metis length_0_conv length_sort)

text \<open>What the main view renders for an item of the master: the three frames it creates hold
  the item's rows, and the running-balance column goes to the third.\<close>

lemma main_view_item:
  assumes "code \<noteq> []" and "code \<noteq> placeholder"
    and "map_of (master_data s) code = Some info"
    and "inventory_data s < length h"
  shows "fst (main_view s h code) =
     Inr (ItemScreen (item_name info)
            \<lparr>current_metric =
               current_stock (item_transactions (df_rows (h ! inventory_data s)) code),
             safety_metric = safety_stock info,
             available_metric =
               available_stock (item_transactions (df_rows (h ! inventory_data s)) code \<noteq> [])
                 (current_stock (item_transactions (df_rows (h ! inventory_data s)) code))
                 (safety_stock info),
             shortage_banner =
               (available_stock (item_transactions (df_rows (h ! inventory_data s)) code \<noteq> [])
                  (current_stock (item_transactions (df_rows (h ! inventory_data s)) code))
                  (safety_stock info) \<le> 0)\<rparr>
            (if item_transactions (df_rows (h ! inventory_data s)) code = []
             then NoHistoryWarning
             else DetailTable
               (map (\<lambda>p. (date (fst p), description (fst p), inbound_qty (fst p),
                            outbound_qty (fst p), snd p))
                  (zip (item_transactions (df_rows (h ! inventory_data s)) code)
                       (running_balance
                          (item_transactions (df_rows (h ! inventory_data s)) code))))))"
  using assms
  by (simp add: main_view_def alloc_def Let_def nth_append bool_index_def sort_values_def
      display_df_def item_transactions_def sort_key_Nil_iff shortage_warning_def)

lemma main_view_heap:
  assumes "a < length h"
  shows "snd (main_view s h code) ! a = h ! a"
  using assms
  by (simp add: main_view_def alloc_def Let_def nth_append display_df_def
      split: option.split sum.split)

lemma map_of_set_entry:
  "map_of (set_entry code v md) k =
     (if k = code then map_option (\<lambda>i. i\<lparr>safety_stock := v\<rparr>) (map_of md k)
      else map_of md k)"
  by (induction md) (auto simp: set_entry_def)

lemma load_after_clear:
  "load_data_from_db False cache_clear d =
     (Inr (product_master d, inventory_history d),
      \<lparr>load_memo = Some (product_master d, inventory_history d),
       master_query_memo = Some (product_master d),
       inventory_query_memo = Some (inventory_history d)\<rparr>)"
  by (simp add: load_data_from_db_def cache_clear_def query_master_def query_inventory_def)



lemma map_fst_set_entry: "map fst (set_entry code v md) = map fst md"
  by (induction md) (auto simp: set_entry_def)

lemma save_button_Saved:
  assumes "save_button fault s c d code v = (Saved code0 v0, s1, c1, d1)"
  shows "code0 = code" and "v0 = v" and "\<not> fault"
    and "\<exists>info. map_of (master_data s) code = Some info"
    and "s1 = s\<lparr>master_data := set_entry code v (master_data s)\<rparr>"
    and "c1 = cache_clear"
    and "d1 = d\<lparr>product_master := set_entry code v (product_master d)\<rparr>"
  using assms
  by (auto simp: save_button_def update_safety_stock_in_db_def set_entry_def
      split: if_splits option.splits)

lemma sidebar_not_clicked:
  "\<not> clicked \<Longrightarrow> snd (sidebar fault s c d sel n clicked) = (s, c, d)"
  by (simp add: sidebar_def split: option.splits)

lemma scenario_item_transactions:
  "item_transactions (df_rows (scenario_heap ! inventory_data scenario_session)) ''A-100''
     = scenario"
  by (simp add: scenario_heap_def scenario_session_def scenario_inventory_def scenario_def
      item_transactions_def)


lemma scenario_current_stock: "current_stock scenario = 90"
  by (simp add: scenario_def current_stock_def wrap64_def)

lemma scenario_running_balance: "running_balance scenario = [100, 70, 90]"
  by (simp add: scenario_def running_balance_def wrap64_def)

lemma large_item_transactions:
  "item_transactions (df_rows (large_heap ! inventory_data large_session)) ''D-400''
     = large_receipts
   \<and> item_transactions (df_rows (large_heap ! inventory_data large_session)) ''E-500''
     = large_shipment"
  by (simp add: large_heap_def large_session_def large_receipts_def large_shipment_def
      item_transactions_def)

section \<open>The stock calculator\<close>

text \<open>
  C1, as amended. For every sequence of transactions of an item, the current stock is the
  sum of the inbound quantities minus the sum of the outbound quantities as 64-bit
  arithmetic keeps it, that is, reduced modulo \<open>2 ^ 64\<close> into the signed 64-bit range; it
  is that difference itself whenever the difference lies in the range. A sequence with the
  same transactions in another order has the same current stock.
\<close>

theorem current_stock_is_sum_mod_2_64_in_any_order:
  "current_stock txs
     = wrap64 (sum_list (map inbound_qty txs) - sum_list (map outbound_qty txs))
   \<and> (in_int64 (sum_list (map inbound_qty txs) - sum_list (map outbound_qty txs)) \<longrightarrow>
        current_stock txs
          = sum_list (map inbound_qty txs) - sum_list (map outbound_qty txs))
   \<and> (\<forall>txs'. mset txs' = mset txs \<longrightarrow> current_stock txs' = current_stock txs)"
proof (intro conjI allI impI)
  show "current_stock txs
      = wrap64 (sum_list (map inbound_qty txs) - sum_list (map outbound_qty txs))"
    by (rule current_stock_wrap)
next
  assume "in_int64 (sum_list (map inbound_qty txs) - sum_list (map outbound_qty txs))"
  then show "current_stock txs
      = sum_list (map inbound_qty txs) - sum_list (map outbound_qty txs)"
    by (simp add: current_stock_wrap wrap64_in_range)
next
  fix txs' :: "transaction list"
  assume "mset txs' = mset txs"
  then show "current_stock txs' = current_stock txs"
    by (rule current_stock_mset)
qed

theorem current_stock_is_sum_mod_2_64_in_any_order_witness:
  "in_int64 (sum_list (map inbound_qty scenario) - sum_list (map outbound_qty scenario))
   \<and> mset (rev scenario) = mset scenario
   \<and> current_stock (rev scenario) = current_stock scenario
   \<and> current_stock scenario = 90"
  using current_stock_is_sum_mod_2_64_in_any_order [of scenario]
  by (simp add: scenario_def in_int64_def)

text \<open>The claim as first stated fails for two receipts of \<open>2 ^ 62\<close>: each quantity is a
  64-bit value, their sum is \<open>2 ^ 63\<close>, and the current stock computed is \<open>- (2 ^ 63)\<close>.\<close>

theorem current_stock_overflow_counterexample:
  "list_all (\<lambda>t. in_int64 (inbound_qty t) \<and> in_int64 (outbound_qty t)) large_receipts
   \<and> sum_list (map inbound_qty large_receipts) - sum_list (map outbound_qty large_receipts)
       = 9223372036854775808
   \<and> current_stock large_receipts = - 9223372036854775808
   \<and> current_stock large_receipts
       \<noteq> sum_list (map inbound_qty large_receipts)
           - sum_list (map outbound_qty large_receipts)"
  by (simp add: large_receipts_def current_stock_def wrap64_def in_int64_def)

text \<open>
  C2, as amended. For every item of the master the main view renders the three figures and
  raises nothing, whatever the sign of the available figure. For an item without
  transactions the available figure is the current figure minus the safety figure; for an
  item with transactions it is that difference as 64-bit arithmetic keeps it, reduced modulo
  \<open>2 ^ 64\<close> into the signed 64-bit range. In both cases it is the difference itself whenever
  the difference lies in that range.
\<close>

theorem available_stock_is_difference_mod_2_64:
  assumes "code \<noteq> []" and "code \<noteq> placeholder"
    and "map_of (master_data s) code = Some info"
    and "inventory_data s < length h"
  shows "\<exists>name m d.
          fst (main_view s h code) = Inr (ItemScreen name m d)
          \<and> current_metric m
              = current_stock (item_transactions (df_rows (h ! inventory_data s)) code)
          \<and> safety_metric m = safety_stock info
          \<and> available_metric m
              = (if item_transactions (df_rows (h ! inventory_data s)) code = []
                 then current_metric m - safety_metric m
                 else wrap64 (current_metric m - safety_metric m))
          \<and> (in_int64 (current_metric m - safety_metric m) \<longrightarrow>
                available_metric m = current_metric m - safety_metric m)"
  using main_view_item [OF assms]
  by (simp add: available_stock_def wrap64_in_range)

theorem available_stock_is_difference_mod_2_64_witness:
  "''A-100'' \<noteq> [] \<and> ''A-100'' \<noteq> placeholder
   \<and> map_of (master_data scenario_session) ''A-100''
       = Some \<lparr>item_name = ''bolt'', safety_stock = 100\<rparr>
   \<and> inventory_data scenario_session < length scenario_heap
   \<and> in_int64 (90 - 100)
   \<and> (\<exists>name m d.
         fst (main_view scenario_session scenario_heap ''A-100'') = Inr (ItemScreen name m d)
         \<and> current_metric m = 90 \<and> safety_metric m = 100 \<and> available_metric m = - 10)"
proof -
  have 1: "''A-100'' \<noteq> []" by simp
  have 2: "''A-100'' \<noteq> placeholder" by (simp add: placeholder_def)
  have 3: "map_of (master_data scenario_session) ''A-100''
       = Some \<lparr>item_name = ''bolt'', safety_stock = 100\<rparr>"
    by (simp add: scenario_session_def scenario_master_def)
  have 4: "inventory_data scenario_session < length scenario_heap"
    by (simp add: scenario_session_def scenario_heap_def)
  have 5: "in_int64 (90 - 100)"
    by (simp add: in_int64_def)
  from available_stock_is_difference_mod_2_64 [OF 1 2 3 4] 1 2 3 4 5
  show ?thesis
    by (auto simp: scenario_item_transactions scenario_current_stock)
qed

text \<open>The claim as first stated fails for an item with one shipment of \<open>2 ^ 63 - 1\<close> and a
  safety stock of 2: the current figure is \<open>- (2 ^ 63 - 1)\<close>, and the available figure
  shown is \<open>2 ^ 63 - 1\<close>, not the current figure minus 2.\<close>

theorem available_stock_overflow_counterexample:
  "fst (main_view large_session large_heap ''E-500'')
     = Inr (ItemScreen ''pin''
              \<lparr>current_metric = - 9223372036854775807, safety_metric = 2,
               available_metric = 9223372036854775807, shortage_banner = False\<rparr>
              (DetailTable
                 [(20240203, ''shipment'', 0, 9223372036854775807, - 9223372036854775807)]))
   \<and> (9223372036854775807 :: int) \<noteq> - 9223372036854775807 - 2"
proof -
  have 1: "''E-500'' \<noteq> []" by simp
  have 2: "''E-500'' \<noteq> placeholder" by (simp add: placeholder_def)
  have 3: "map_of (master_data large_session) ''E-500''
       = Some \<lparr>item_name = ''pin'', safety_stock = 2\<rparr>"
    by (simp add: large_session_def)
  have 4: "inventory_data large_session < length large_heap"
    by (simp add: large_session_def large_heap_def)
  have 5: "current_stock large_shipment = - 9223372036854775807"
    by (simp add: large_shipment_def current_stock_def wrap64_def)
  have 6: "running_balance large_shipment = [- 9223372036854775807]"
    by (simp add: large_shipment_def running_balance_def wrap64_def)
  have 7: "large_shipment \<noteq> []"
    by (simp add: large_shipment_def)
  have 8: "zip large_shipment [- 9223372036854775807 :: int]
      = [(hd large_shipment, - 9223372036854775807)]"
    by (simp add: large_shipment_def)
  from main_view_item [OF 1 2 3 4] show ?thesis
    by (simp add: large_item_transactions 5 6 7 8 available_stock_def wrap64_def)
      (simp add: large_shipment_def)
qed



text \<open>
  C4, as amended. The running balance has one value for each transaction, in the order of
  the transactions, and the displayed table pairs each transaction with its value. The
  value at a position is the value before it (zero before the first) plus the inbound
  quantity minus the outbound quantity of the transaction at that position, as 64-bit
  arithmetic keeps it: reduced modulo \<open>2 ^ 64\<close> into the signed 64-bit range, and the sum
  itself whenever the sum lies in that range. This holds for every sequence, so for every
  sequence in ascending date order.
\<close>

theorem running_balance_follows_transactions_mod_2_64:
  "length (running_balance txs) = length txs
   \<and> (\<forall>i < length txs.
         running_balance txs ! i =
           wrap64 ((if i = 0 then 0 else running_balance txs ! (i - 1))
                     + inbound_qty (txs ! i) - outbound_qty (txs ! i)))
   \<and> (\<forall>i < length txs.
         in_int64 ((if i = 0 then 0 else running_balance txs ! (i - 1))
                     + inbound_qty (txs ! i) - outbound_qty (txs ! i)) \<longrightarrow>
         running_balance txs ! i =
           (if i = 0 then 0 else running_balance txs ! (i - 1))
             + inbound_qty (txs ! i) - outbound_qty (txs ! i))
   \<and> (\<exists>table.
         display_df \<lparr>df_rows = txs, df_balance = Some (running_balance txs)\<rparr> = Inr table
         \<and> length table = length txs
         \<and> (\<forall>i < length txs.
               table ! i = (date (txs ! i), description (txs ! i), inbound_qty (txs ! i),
                            outbound_qty (txs ! i), running_balance txs ! i)))"
proof -
  have len: "length (running_balance txs) = length txs"
    by (simp add: running_balance_def cumsum_length)
  have step: "running_balance txs ! i =
      wrap64 ((if i = 0 then 0 else running_balance txs ! (i - 1))
                + inbound_qty (txs ! i) - outbound_qty (txs ! i))"
    if "i < length txs" for i
  proof -
    have "running_balance txs ! i =
        wrap64 ((if i = 0 then 0 else running_balance txs ! (i - 1))
                  + wrap64 (inbound_qty (txs ! i) - outbound_qty (txs ! i)))"
      using that cumsum_nth [of i "map (\<lambda>t. wrap64 (inbound_qty t - outbound_qty t)) txs" 0]
      by (simp add: running_balance_def)
    then show ?thesis
      by (simp add: wrap64_add_right add_diff_eq)
  qed
  have table: "\<exists>table.
         display_df \<lparr>df_rows = txs, df_balance = Some (running_balance txs)\<rparr> = Inr table
         \<and> length table = length txs
         \<and> (\<forall>i < length txs.
               table ! i = (date (txs ! i), description (txs ! i), inbound_qty (txs ! i),
                            outbound_qty (txs ! i), running_balance txs ! i))"
    by (simp add: display_df_def len)
  have step_all: "\<forall>i < length txs.
      running_balance txs ! i =
        wrap64 ((if i = 0 then 0 else running_balance txs ! (i - 1))
                  + inbound_qty (txs ! i) - outbound_qty (txs ! i))"
    using step by blast
  have exact: "\<forall>i < length txs.
      in_int64 ((if i = 0 then 0 else running_balance txs ! (i - 1))
                  + inbound_qty (txs ! i) - outbound_qty (txs ! i)) \<longrightarrow>
      running_balance txs ! i =
        (if i = 0 then 0 else running_balance txs ! (i - 1))
          + inbound_qty (txs ! i) - outbound_qty (txs ! i)"
  proof (intro allI impI)
    fix i
    assume "i < length txs"
      and r: "in_int64 ((if i = 0 then 0 else running_balance txs ! (i - 1))
                  + inbound_qty (txs ! i) - outbound_qty (txs ! i))"
    from step [OF this(1)] wrap64_in_range [OF r]
    show "running_balance txs ! i =
        (if i = 0 then 0 else running_balance txs ! (i - 1))
          + inbound_qty (txs ! i) - outbound_qty (txs ! i)"
      by (rule trans)
  qed
  from len step_all exact table show ?thesis
    by (intro conjI)
qed

theorem running_balance_follows_transactions_mod_2_64_witness:
  "sorted (map date scenario)
   \<and> running_balance scenario = [100, 70, 90]
   \<and> length (running_balance scenario) = length scenario
   \<and> in_int64 (running_balance scenario ! 1
        + inbound_qty (scenario ! 2) - outbound_qty (scenario ! 2))
   \<and> running_balance scenario ! 2
       = running_balance scenario ! 1
           + inbound_qty (scenario ! 2) - outbound_qty (scenario ! 2)"
  using running_balance_follows_transactions_mod_2_64 [of scenario]
  by (simp add: scenario_running_balance) (simp add: scenario_def in_int64_def)

text \<open>The claim as first stated fails for two receipts of \<open>2 ^ 62\<close>: the second value is
  \<open>- (2 ^ 63)\<close>, not the first value plus \<open>2 ^ 62\<close>.\<close>

theorem running_balance_overflow_counterexample:
  "running_balance large_receipts = [4611686018427387904, - 9223372036854775808]
   \<and> running_balance large_receipts ! 1
       \<noteq> running_balance large_receipts ! 0
           + inbound_qty (large_receipts ! 1) - outbound_qty (large_receipts ! 1)"
  by (simp add: large_receipts_def running_balance_def wrap64_def)

text \<open>
  C5. For every sequence of transactions that is not empty, the last running-balance value
  is the current stock of the same sequence. This holds for every such sequence, so for
  every one in ascending date order.
\<close>

theorem last_running_balance_is_current_stock:
  "txs \<noteq> [] \<Longrightarrow> last (running_balance txs) = current_stock txs"
  by (simp add: running_balance_last current_stock_net)

theorem last_running_balance_is_current_stock_witness:
  "scenario \<noteq> [] \<and> sorted (map date scenario)
   \<and> last (running_balance scenario) = current_stock scenario
   \<and> current_stock scenario = 90"
  using last_running_balance_is_current_stock [of scenario]
  by (simp add: scenario_current_stock) (simp add: scenario_def)

text \<open>
  C6. For an item of the master with no transaction in the stored table, the main view
  raises nothing: it renders a current stock of zero and the no-history warning in place of
  the table. The current stock of the empty sequence is zero and its running balance is
  empty.
\<close>

theorem empty_history_is_zero_stock_and_warning:
  assumes "code \<noteq> []" and "code \<noteq> placeholder"
    and "map_of (master_data s) code = Some info"
    and "inventory_data s < length h"
    and "\<forall>t \<in> set (df_rows (h ! inventory_data s)). item_code t \<noteq> code"
  shows "current_stock [] = 0 \<and> running_balance [] = []
    \<and> item_transactions (df_rows (h ! inventory_data s)) code = []
    \<and> fst (main_view s h code) =
        Inr (ItemScreen (item_name info)
               \<lparr>current_metric = 0, safety_metric = safety_stock info,
                available_metric = - safety_stock info,
                shortage_banner = (0 \<le> safety_stock info)\<rparr>
               NoHistoryWarning)"
proof -
  have "filter (\<lambda>t. item_code t = code) (df_rows (h ! inventory_data s)) = []"
    using assms(5) by (simp add: filter_empty_conv)
  then have e: "item_transactions (df_rows (h ! inventory_data s)) code = []"
    by (simp add: item_transactions_def)
  from main_view_item [OF assms(1-4)] e show ?thesis
    by (simp add: current_stock_def running_balance_def available_stock_def)
qed

theorem empty_history_is_zero_stock_and_warning_witness:
  "''B-200'' \<noteq> [] \<and> ''B-200'' \<noteq> placeholder
   \<and> map_of (master_data scenario_session) ''B-200''
       = Some \<lparr>item_name = ''nut'', safety_stock = 0\<rparr>
   \<and> inventory_data scenario_session < length scenario_heap
   \<and> list_all (\<lambda>t. item_code t \<noteq> ''B-200'')
       (df_rows (scenario_heap ! inventory_data scenario_session))
   \<and> fst (main_view scenario_session scenario_heap ''B-200'') =
        Inr (ItemScreen ''nut''
               \<lparr>current_metric = 0, safety_metric = 0, available_metric = 0,
                shortage_banner = True\<rparr>
               NoHistoryWarning)"
proof -
  have 1: "''B-200'' \<noteq> []" by simp
  have 2: "''B-200'' \<noteq> placeholder" by (simp add: placeholder_def)
  have 3: "map_of (master_data scenario_session) ''B-200''
       = Some \<lparr>item_name = ''nut'', safety_stock = 0\<rparr>"
    by (simp add: scenario_session_def scenario_master_def)
  have 4: "inventory_data scenario_session < length scenario_heap"
    by (simp add: scenario_session_def scenario_heap_def)
  have 5: "\<forall>t \<in> set (df_rows (scenario_heap ! inventory_data scenario_session)).
      item_code t \<noteq> ''B-200''"
    by (simp add: scenario_session_def scenario_heap_def scenario_inventory_def scenario_def)
  from empty_history_is_zero_stock_and_warning [OF 1 2 3 4 5] 1 2 3 4 5
  show ?thesis
    by (simp add: list_all_iff)
qed

section \<open>Setting the safety stock\<close>

text \<open>
  C7, as amended. Whenever the save button reports success for an item code and a new value,
  the entry of that code in the session's item master holds the new value (and no other
  entry has changed), so the main view of the same run, which reads the master after the
  side bar, shows the new safety stock; and every memoized result has been cleared, so the
  next load reads the tables of the store as the write left them: the product master with
  the same item codes in the same order, in which every row of that code, and no other row,
  has taken the new value, and the same transactions. The reloaded master holds the new
  value for the code exactly when the stored product master had a row for it, which the
  write does not check.
\<close>

theorem save_success_updates_master_clears_cache_and_writes_store:
  assumes "save_button fault s c d code v = (Saved code0 v0, s1, c1, d1)"
  shows "code0 = code \<and> v0 = v
    \<and> (\<exists>info. map_of (master_data s) code = Some info
           \<and> map_of (master_data s1) code = Some (info\<lparr>safety_stock := v\<rparr>))
    \<and> (\<forall>k. k \<noteq> code \<longrightarrow> map_of (master_data s1) k = map_of (master_data s) k)
    \<and> (\<forall>h. inventory_data s1 < length h \<longrightarrow> code \<noteq> [] \<longrightarrow> code \<noteq> placeholder \<longrightarrow>
           (\<exists>name m det. fst (main_view s1 h code) = Inr (ItemScreen name m det)
              \<and> safety_metric m = v))
    \<and> c1 = cache_clear
    \<and> d1 = d\<lparr>product_master := set_entry code v (product_master d)\<rparr>
    \<and> fst (load_data_from_db False c1 d1)
        = Inr (set_entry code v (product_master d), inventory_history d)
    \<and> map fst (set_entry code v (product_master d)) = map fst (product_master d)
    \<and> (\<forall>k. map_of (set_entry code v (product_master d)) k
          = (if k = code
             then map_option (\<lambda>i. i\<lparr>safety_stock := v\<rparr>) (map_of (product_master d) k)
             else map_of (product_master d) k))"
proof -
  note f = save_button_Saved [OF assms]
  from f(4) obtain info where info: "map_of (master_data s) code = Some info" ..
  have m1: "map_of (master_data s1) code = Some (info\<lparr>safety_stock := v\<rparr>)"
    using info by (simp add: f(5) map_of_set_entry)
  have others: "\<forall>k. k \<noteq> code \<longrightarrow> map_of (master_data s1) k = map_of (master_data s) k"
    by (simp add: f(5) map_of_set_entry)
  have view: "\<forall>h. inventory_data s1 < length h \<longrightarrow> code \<noteq> [] \<longrightarrow> code \<noteq> placeholder \<longrightarrow>
           (\<exists>name m det. fst (main_view s1 h code) = Inr (ItemScreen name m det)
              \<and> safety_metric m = v)"
  proof (intro allI impI)
    fix h :: heap
    assume "inventory_data s1 < length h" and "code \<noteq> []" and "code \<noteq> placeholder"
    from main_view_item [OF this(2) this(3) m1 this(1)]
    show "\<exists>name m det. fst (main_view s1 h code) = Inr (ItemScreen name m det)
              \<and> safety_metric m = v"
      by simp
  qed
  have load: "fst (load_data_from_db False c1 d1)
      = Inr (set_entry code v (product_master d), inventory_history d)"
    by (simp add: f(6) f(7) load_after_clear)
  have rows: "\<forall>k. map_of (set_entry code v (product_master d)) k
          = (if k = code
             then map_option (\<lambda>i. i\<lparr>safety_stock := v\<rparr>) (map_of (product_master d) k)
             else map_of (product_master d) k)"
    by (simp add: map_of_set_entry)
  have "\<exists>info. map_of (master_data s) code = Some info
           \<and> map_of (master_data s1) code = Some (info\<lparr>safety_stock := v\<rparr>)"
    using info m1 by blast
  with f(1) f(2) others view f(6) f(7) load map_fst_set_entry [of code v "product_master d"]
    rows
  show ?thesis
    by (intro conjI)
qed

theorem save_success_updates_master_clears_cache_and_writes_store_witness:
  "save_button False scenario_session scenario_cache scenario_db ''A-100'' 50
     = (Saved ''A-100'' 50,
        \<lparr>master_data = [(''A-100'', \<lparr>item_name = ''bolt'', safety_stock = 50\<rparr>),
                        (''B-200'', \<lparr>item_name = ''nut'', safety_stock = 0\<rparr>)],
         inventory_data = 0\<rparr>,
        cache_clear,
        \<lparr>product_master = [(''A-100'', \<lparr>item_name = ''bolt'', safety_stock = 50\<rparr>),
                           (''B-200'', \<lparr>item_name = ''nut'', safety_stock = 0\<rparr>)],
         inventory_history = scenario_inventory\<rparr>)
   \<and> scenario_cache \<noteq> cache_clear
   \<and> fst (load_data_from_db False scenario_cache
             \<lparr>product_master = [(''A-100'', \<lparr>item_name = ''bolt'', safety_stock = 50\<rparr>),
                                (''B-200'', \<lparr>item_name = ''nut'', safety_stock = 0\<rparr>)],
              inventory_history = scenario_inventory\<rparr>)
       = Inr (scenario_master, scenario_inventory)
   \<and> fst (load_data_from_db False cache_clear
             \<lparr>product_master = [(''A-100'', \<lparr>item_name = ''bolt'', safety_stock = 50\<rparr>),
                                (''B-200'', \<lparr>item_name = ''nut'', safety_stock = 0\<rparr>)],
              inventory_history = scenario_inventory\<rparr>)
       = Inr ([(''A-100'', \<lparr>item_name = ''bolt'', safety_stock = 50\<rparr>),
               (''B-200'', \<lparr>item_name = ''nut'', safety_stock = 0\<rparr>)], scenario_inventory)"
proof -
  have e: "save_button False scenario_session scenario_cache scenario_db ''A-100'' 50
     = (Saved ''A-100'' 50,
        \<lparr>master_data = [(''A-100'', \<lparr>item_name = ''bolt'', safety_stock = 50\<rparr>),
                        (''B-200'', \<lparr>item_name = ''nut'', safety_stock = 0\<rparr>)],
         inventory_data = 0\<rparr>,
        cache_clear,
        \<lparr>product_master = [(''A-100'', \<lparr>item_name = ''bolt'', safety_stock = 50\<rparr>),
                           (''B-200'', \<lparr>item_name = ''nut'', safety_stock = 0\<rparr>)],
         inventory_history = scenario_inventory\<rparr>)"
    by (simp add: save_button_def update_safety_stock_in_db_def scenario_session_def
        scenario_db_def scenario_master_def set_entry_def)
  have n: "scenario_cache \<noteq> cache_clear"
    by (simp add: scenario_cache_def cache_clear_def)
  have st: "fst (load_data_from_db False scenario_cache
             \<lparr>product_master = [(''A-100'', \<lparr>item_name = ''bolt'', safety_stock = 50\<rparr>),
                                (''B-200'', \<lparr>item_name = ''nut'', safety_stock = 0\<rparr>)],
              inventory_history = scenario_inventory\<rparr>)
       = Inr (scenario_master, scenario_inventory)"
    by (simp add: load_data_from_db_def scenario_cache_def)
  have se: "set_entry ''A-100'' 50 (product_master scenario_db)
      = [(''A-100'', \<lparr>item_name = ''bolt'', safety_stock = 50\<rparr>),
         (''B-200'', \<lparr>item_name = ''nut'', safety_stock = 0\<rparr>)]"
    by (simp add: set_entry_def scenario_db_def scenario_master_def)
  have l: "fst (load_data_from_db False cache_clear
             \<lparr>product_master = [(''A-100'', \<lparr>item_name = ''bolt'', safety_stock = 50\<rparr>),
                                (''B-200'', \<lparr>item_name = ''nut'', safety_stock = 0\<rparr>)],
              inventory_history = scenario_inventory\<rparr>)
       = Inr (set_entry ''A-100'' 50 (product_master scenario_db),
              inventory_history scenario_db)"
    using save_success_updates_master_clears_cache_and_writes_store [OF e]
    by (elim conjE) assumption
  have i: "inventory_history scenario_db = scenario_inventory"
    by (simp add: scenario_db_def)
  from e n st l show ?thesis
    by (simp only: se i simp_thms)
qed

text \<open>The claim as first stated fails when the stored product master has no row for the
  item code while the session still holds it: the save reports success, the memoized results
  are cleared, and the reloaded master has no entry for the code, so the reload does not
  show the change.\<close>

theorem save_success_reload_without_item_counterexample:
  "save_button False scenario_session scenario_cache stale_db ''A-100'' 50
     = (Saved ''A-100'' 50,
        \<lparr>master_data = [(''A-100'', \<lparr>item_name = ''bolt'', safety_stock = 50\<rparr>),
                        (''B-200'', \<lparr>item_name = ''nut'', safety_stock = 0\<rparr>)],
         inventory_data = 0\<rparr>,
        cache_clear, stale_db)
   \<and> fst (load_data_from_db False cache_clear stale_db)
       = Inr ([(''B-200'', \<lparr>item_name = ''nut'', safety_stock = 0\<rparr>)], scenario_inventory)
   \<and> map_of [(''B-200'', \<lparr>item_name = ''nut'', safety_stock = 0\<rparr>)] ''A-100'' = None"
  by (simp add: save_button_def update_safety_stock_in_db_def scenario_session_def
      stale_db_def scenario_master_def set_entry_def load_after_clear)

text \<open>
  C8. Whenever the write to the store raises, the save button reports the failure and
  leaves the session's item master, the memoized results and the store as they were; the
  same holds for the side bar as a whole.
\<close>

theorem failed_write_leaves_master_and_cache:
  assumes "update_safety_stock_in_db fault d code v = Inl e"
  shows "save_button fault s c d code v = (SaveFailed e, s, c, d)
     \<and> snd (sidebar fault s c d sel n clicked) = (s, c, d)"
  using assms
  by (auto simp: save_button_def sidebar_def update_safety_stock_in_db_def
      split: option.splits if_splits)

theorem failed_write_leaves_master_and_cache_witness:
  "update_safety_stock_in_db True scenario_db ''A-100'' 50 = Inl DatabaseError
   \<and> save_button True scenario_session scenario_cache scenario_db ''A-100'' 50
       = (SaveFailed DatabaseError, scenario_session, scenario_cache, scenario_db)
   \<and> sidebar True scenario_session scenario_cache scenario_db (Some ''A-100'') 50 True
       = (Inr (Some (SaveFailed DatabaseError)), scenario_session, scenario_cache, scenario_db)"
proof -
  have e: "update_safety_stock_in_db True scenario_db ''A-100'' 50 = Inl DatabaseError"
    by (simp add: update_safety_stock_in_db_def)
  have m: "map_of (master_data scenario_session) ''A-100''
      = Some \<lparr>item_name = ''bolt'', safety_stock = 100\<rparr>"
    by (simp add: scenario_session_def scenario_master_def)
  from failed_write_leaves_master_and_cache
    [OF e, of scenario_session scenario_cache "Some ''A-100''" 50 True] e m
  show ?thesis
    by (simp add: sidebar_def)
qed




section \<open>Viewing an item\<close>

text \<open>
  C10. Viewing an item is read-only. The main view writes the running-balance column to a
  frame it has created itself, so the frame the session refers to is afterwards what it was
  before; and a run of the page in which the save button is not pressed leaves the session's
  item master, its reference to the transaction table, that table, the memoized results and
  the store unchanged.
\<close>

theorem viewing_is_read_only:
  assumes "inventory_data s < length h" and "\<not> save_clicked inp"
  shows "snd (main_view s h code) ! inventory_data s = h ! inventory_data s
    \<and> (case page inp (Some s) c d h of
          (out, sess1, c1, d1, h1) \<Rightarrow>
            sess1 = Some s \<and> c1 = c \<and> d1 = d
            \<and> h1 ! inventory_data s = h ! inventory_data s)"
proof -
  obtain r where sb:
    "sidebar (write_fault inp) s c d (selected_item inp) (new_safety_stock inp)
       (save_clicked inp) = (r, s, c, d)"
    using sidebar_not_clicked [OF assms(2)] by (metis prod.collapse)
  have mv: "snd (main_view s h (item_code_input inp)) ! inventory_data s
      = h ! inventory_data s"
    using assms(1) by (rule main_view_heap)
  from sb mv have
    "case page inp (Some s) c d h of
       (out, sess1, c1, d1, h1) \<Rightarrow>
         sess1 = Some s \<and> c1 = c \<and> d1 = d \<and> h1 ! inventory_data s = h ! inventory_data s"
    by (auto simp: page_def startup_def split: sum.splits prod.splits)
  with main_view_heap [OF assms(1)] show ?thesis by simp
qed

theorem viewing_is_read_only_witness:
  "inventory_data scenario_session < length scenario_heap \<and> \<not> save_clicked scenario_inputs
   \<and> page scenario_inputs (Some scenario_session) scenario_cache scenario_db scenario_heap
       = (Page None
            (ItemScreen ''bolt''
               \<lparr>current_metric = 90, safety_metric = 100, available_metric = - 10,
                shortage_banner = True\<rparr>
               (DetailTable
                  [(20240101, ''receipt'', 100, 0, 100),
                   (20240105, ''shipment'', 0, 30, 70),
                   (20240110, ''receipt'', 20, 0, 90)])),
          Some scenario_session, scenario_cache, scenario_db,
          scenario_heap
            @ [\<lparr>df_rows = rev scenario, df_balance = None\<rparr>,
               \<lparr>df_rows = rev scenario, df_balance = None\<rparr>,
               \<lparr>df_rows = scenario, df_balance = Some [100, 70, 90]\<rparr>])
   \<and> df_balance (scenario_heap ! inventory_data scenario_session) = None"
proof -
  have 1: "inventory_data scenario_session < length scenario_heap"
    by (simp add: scenario_session_def scenario_heap_def)
  have 2: "\<not> save_clicked scenario_inputs"
    by (simp add: scenario_inputs_def)
  have 3: "page scenario_inputs (Some scenario_session) scenario_cache scenario_db scenario_heap
       = (Page None
            (ItemScreen ''bolt''
               \<lparr>current_metric = 90, safety_metric = 100, available_metric = - 10,
                shortage_banner = True\<rparr>
               (DetailTable
                  [(20240101, ''receipt'', 100, 0, 100),
                   (20240105, ''shipment'', 0, 30, 70),
                   (20240110, ''receipt'', 20, 0, 90)])),
          Some scenario_session, scenario_cache, scenario_db,
          scenario_heap
            @ [\<lparr>df_rows = rev scenario, df_balance = None\<rparr>,
               \<lparr>df_rows = rev scenario, df_balance = None\<rparr>,
               \<lparr>df_rows = scenario, df_balance = Some [100, 70, 90]\<rparr>])"
    by (simp add: page_def startup_def sidebar_def main_view_def alloc_def Let_def
        scenario_inputs_def scenario_session_def scenario_master_def scenario_heap_def
        scenario_inventory_def scenario_def placeholder_def bool_index_def sort_values_def
        current_stock_def available_stock_def shortage_warning_def running_balance_def
        display_df_def wrap64_def)
  have 4: "df_balance (scenario_heap ! inventory_data scenario_session) = None"
    by (simp add: scenario_session_def scenario_heap_def)
  from viewing_is_read_only [OF 1 2, of "''A-100''" scenario_cache scenario_db] 1 2 3 4
  show ?thesis
    by simp
qed

section \<open>A further property of the save button\<close>

text \<open>
  Saving the same value for the same item code a second time, with the store reachable,
  gives the same report and leaves the session's item master, the memoized results and the
  store as the first save left them.
\<close>

theorem save_twice_is_save_once:
  assumes "save_button False s c d code v = (n, s1, c1, d1)"
  shows "save_button False s1 c1 d1 code v = (n, s1, c1, d1)"
proof -
  let ?f = "\<lambda>r. if fst r = code then (fst r, (snd r)\<lparr>safety_stock := v\<rparr>) else r"
  have ff: "map ?f (map ?f xs) = map ?f xs" for xs :: "(string \<times> item_info) list"
    by (induction xs) auto
  have d1: "d1 = d\<lparr>product_master := map ?f (product_master d)\<rparr>"
    using assms
    by (auto simp: save_button_def update_safety_stock_in_db_def split: option.splits)
  have u: "update_safety_stock_in_db False d1 code v = Inr d1"
    by (simp add: update_safety_stock_in_db_def d1 ff)
  show ?thesis
  proof (cases "map_of (master_data s) code")
    case None
    with assms have "n = SaveFailed (KeyError code)" and "s1 = s" and "c1 = c"
      by (auto simp: save_button_def update_safety_stock_in_db_def)
    with None u show ?thesis
      by (simp add: save_button_def)
  next
    case (Some info)
    with assms have n: "n = Saved code v"
      and s1: "s1 = s\<lparr>master_data := set_entry code v (master_data s)\<rparr>"
      and c1: "c1 = cache_clear"
      by (auto simp: save_button_def update_safety_stock_in_db_def)
    have m: "map_of (master_data s1) code = Some (info\<lparr>safety_stock := v\<rparr>)"
      using Some by (simp add: s1 map_of_set_entry)
    have e: "set_entry code v (master_data s1) = master_data s1"
      by (simp add: s1 set_entry_def ff)
    from u m e show ?thesis
      by (simp add: save_button_def n c1)
  qed
qed

theorem save_twice_is_save_once_witness:
  "save_button False scenario_session scenario_cache scenario_db ''A-100'' 50
     = (Saved ''A-100'' 50,
        scenario_session\<lparr>master_data := set_entry ''A-100'' 50 scenario_master\<rparr>,
        cache_clear,
        scenario_db\<lparr>product_master := set_entry ''A-100'' 50 scenario_master\<rparr>)
   \<and> save_button False
        (scenario_session\<lparr>master_data := set_entry ''A-100'' 50 scenario_master\<rparr>)
        cache_clear
        (scenario_db\<lparr>product_master := set_entry ''A-100'' 50 scenario_master\<rparr>)
        ''A-100'' 50
     = (Saved ''A-100'' 50,
        scenario_session\<lparr>master_data := set_entry ''A-100'' 50 scenario_master\<rparr>,
        cache_clear,
        scenario_db\<lparr>product_master := set_entry ''A-100'' 50 scenario_master\<rparr>)"
proof -
  have e: "save_button False scenario_session scenario_cache scenario_db ''A-100'' 50
     = (Saved ''A-100'' 50,
        scenario_session\<lparr>master_data := set_entry ''A-100'' 50 scenario_master\<rparr>,
        cache_clear,
        scenario_db\<lparr>product_master := set_entry ''A-100'' 50 scenario_master\<rparr>)"
    by (simp add: save_button_def update_safety_stock_in_db_def scenario_session_def
        scenario_db_def scenario_master_def set_entry_def)
  from save_twice_is_save_once [OF e] e show ?thesis
    by simp
qed

end
